theory Spec2Isabelle
  imports Complex_Main
begin

section \<open>Values: errors, tensors, vectors and matrices\<close>

text \<open>
  The kinematics code of \<^verbatim>\<open>tf_robot_learning/kinematic\<close> computes on TensorFlow float
  tensors. The embedding keeps two things of a tensor: its entries, as real numbers
  (rounding is not modelled), and its batch rank. A tensor of shape \<^verbatim>\<open>(3,)\<close> is
  \<open>Single v\<close>, a tensor of shape \<^verbatim>\<open>(N, 3)\<close> is \<open>Batch vs\<close> with \<open>length vs = N\<close>;
  likewise \<^verbatim>\<open>(3, 3)\<close> and \<^verbatim>\<open>(N, 3, 3)\<close> for matrices, and \<^verbatim>\<open>()\<close> and \<^verbatim>\<open>(N,)\<close> for joint
  values. Every exception the Python raises is a value \<open>Inl e\<close>.
\<close>

datatype error =
    IndexError
  | ShapeError
  | NotImplementedError
  | ValueError
  | TypeError
  | AttributeError
  | KeyError
  | UnboundLocalError

type_synonym 'a result = "error + 'a"

definition rbind :: "'a result \<Rightarrow> ('a \<Rightarrow> 'b result) \<Rightarrow> 'b result" where
  "rbind r k = (case r of Inl e \<Rightarrow> Inl e | Inr v \<Rightarrow> k v)"

datatype 'a tensor = Single 'a | Batch "'a list"

type_synonym vec3 = "real \<times> real \<times> real"
type_synonym mat3 = "vec3 \<times> vec3 \<times> vec3"
type_synonym vec6 = "vec3 \<times> vec3"

fun vadd :: "vec3 \<Rightarrow> vec3 \<Rightarrow> vec3" where
  "vadd (a1, a2, a3) (b1, b2, b3) = (a1 + b1, a2 + b2, a3 + b3)"

fun vsub :: "vec3 \<Rightarrow> vec3 \<Rightarrow> vec3" where
  "vsub (a1, a2, a3) (b1, b2, b3) = (a1 - b1, a2 - b2, a3 - b3)"

fun vneg :: "vec3 \<Rightarrow> vec3" where
  "vneg (a1, a2, a3) = (- a1, - a2, - a3)"

fun dot3 :: "vec3 \<Rightarrow> vec3 \<Rightarrow> real" where
  "dot3 (a1, a2, a3) (b1, b2, b3) = a1 * b1 + a2 * b2 + a3 * b3"

fun cross3 :: "vec3 \<Rightarrow> vec3 \<Rightarrow> vec3" where
  "cross3 (a1, a2, a3) (b1, b2, b3) =
     (a2 * b3 - a3 * b2, a3 * b1 - a1 * b3, a1 * b2 - a2 * b1)"

text \<open>A matrix is the triple of its rows.\<close>

fun matvec :: "mat3 \<Rightarrow> vec3 \<Rightarrow> vec3" where
  "matvec (r1, r2, r3) v = (dot3 r1 v, dot3 r2 v, dot3 r3 v)"

fun transpose3 :: "mat3 \<Rightarrow> mat3" where
  "transpose3 ((a11, a12, a13), (a21, a22, a23), (a31, a32, a33)) =
     ((a11, a21, a31), (a12, a22, a32), (a13, a23, a33))"

fun matmat :: "mat3 \<Rightarrow> mat3 \<Rightarrow> mat3" where
  "matmat (r1, r2, r3) B =
     (case transpose3 B of (c1, c2, c3) \<Rightarrow>
        ((dot3 r1 c1, dot3 r1 c2, dot3 r1 c3),
         (dot3 r2 c1, dot3 r2 c2, dot3 r2 c3),
         (dot3 r3 c1, dot3 r3 c2, dot3 r3 c3)))"

definition zeros3 :: vec3 where
  "zeros3 = (0, 0, 0)"

definition eye3 :: mat3 where
  "eye3 = ((1, 0, 0), (0, 1, 0), (0, 0, 1))"

subsection \<open>TensorFlow operations on batched values\<close>

text \<open>
  \<^verbatim>\<open>a + b\<close> and \<^verbatim>\<open>a - b\<close> on tensors broadcast: a tensor without the batch axis, or with
  a batch axis of size 1, is repeated along the batch axis of the other; two batch axes of
  different sizes, neither of them 1, are an error.
\<close>

fun tf_broadcast :: "('a \<Rightarrow> 'b \<Rightarrow> 'c) \<Rightarrow> 'a tensor \<Rightarrow> 'b tensor \<Rightarrow> 'c tensor result" where
  "tf_broadcast g (Single a) (Single b) = Inr (Single (g a b))"
| "tf_broadcast g (Single a) (Batch bs) = Inr (Batch (map (g a) bs))"
| "tf_broadcast g (Batch as) (Single b) = Inr (Batch (map (\<lambda>a. g a b) as))"
| "tf_broadcast g (Batch as) (Batch bs) =
     (if length as = length bs then Inr (Batch (map2 g as bs))
      else (case as of
              [a] \<Rightarrow> Inr (Batch (map (g a) bs))
            | _ \<Rightarrow> (case bs of
                      [b] \<Rightarrow> Inr (Batch (map (\<lambda>a. g a b) as))
                    | _ \<Rightarrow> Inl ShapeError)))"

definition tf_add :: "vec3 tensor \<Rightarrow> vec3 tensor \<Rightarrow> vec3 tensor result" where
  "tf_add = tf_broadcast vadd"

definition tf_sub :: "vec3 tensor \<Rightarrow> vec3 tensor \<Rightarrow> vec3 tensor result" where
  "tf_sub = tf_broadcast vsub"

text \<open>
  \<^verbatim>\<open>tf1.cross(a, b)\<close> is the pairwise cross product. It does not broadcast: both
  arguments must have the same shape.
\<close>

fun tf_cross :: "vec3 tensor \<Rightarrow> vec3 tensor \<Rightarrow> vec3 tensor result" where
  "tf_cross (Single a) (Single b) = Inr (Single (cross3 a b))"
| "tf_cross (Batch as) (Batch bs) =
     (if length as = length bs then Inr (Batch (map2 cross3 as bs)) else Inl ShapeError)"
| "tf_cross (Single a) (Batch bs) = Inl ShapeError"
| "tf_cross (Batch as) (Single b) = Inl ShapeError"

text \<open>
  \<^verbatim>\<open>tf.concat([vel, rot], 1)\<close> joins two tensors of shape \<^verbatim>\<open>(N, 3)\<close> into one of shape
  \<^verbatim>\<open>(N, 6)\<close>; \<^verbatim>\<open>tf.concat([vel, rot], 0)\<close> joins two tensors of shape \<^verbatim>\<open>(3,)\<close> into one
  of shape \<^verbatim>\<open>(6,)\<close>. The callers choose axis 0 only when neither argument has a batch
  axis.
\<close>

fun concat_axis1 :: "vec3 tensor \<Rightarrow> vec3 tensor \<Rightarrow> vec6 tensor result" where
  "concat_axis1 (Batch as) (Batch bs) =
     (if length as = length bs then Inr (Batch (zip as bs)) else Inl ShapeError)"
| "concat_axis1 (Single a) (Batch bs) = Inl ShapeError"
| "concat_axis1 (Batch as) (Single b) = Inl ShapeError"
| "concat_axis1 (Single a) (Single b) = Inl ShapeError"

fun concat_axis0 :: "vec3 tensor \<Rightarrow> vec3 tensor \<Rightarrow> vec6 tensor result" where
  "concat_axis0 (Single a) (Single b) = Inr (Single (a, b))"
| "concat_axis0 (Single a) (Batch bs) = Inl ShapeError"
| "concat_axis0 (Batch as) (Single b) = Inl ShapeError"
| "concat_axis0 (Batch as) (Batch bs) = Inl ShapeError"

fun is_batch :: "'a tensor \<Rightarrow> bool" where
  "is_batch (Single a) = False"
| "is_batch (Batch as) = True"


section \<open>Twist\<close>

text \<open>
  \<^verbatim>\<open>class Twist\<close> of \<^verbatim>\<open>frame.py\<close>: the field \<^verbatim>\<open>dx\<close> of shape \<^verbatim>\<open>(6,)\<close> or \<^verbatim>\<open>(N, 6)\<close>,
  linear velocity first (\<^verbatim>\<open>vel = dx[:3]\<close>), angular velocity second (\<^verbatim>\<open>rot = dx[3:]\<close>).
\<close>

record Twist =
  dx :: "vec6 tensor"

definition vel :: "Twist \<Rightarrow> vec3 tensor" where
  "vel t = map_tensor fst (dx t)"

definition rot :: "Twist \<Rightarrow> vec3 tensor" where
  "rot t = map_tensor snd (dx t)"

text \<open>
  \<^verbatim>\<open>Twist.ref_point(self, v)\<close>. The three branches compare the ranks of \<^verbatim>\<open>v\<close> and
  \<^verbatim>\<open>self.rot\<close>; in the first, \<^verbatim>\<open>self.rot[None] * (tf.zeros_like(v) + 1.)\<close> repeats the
  angular velocity once per row of \<^verbatim>\<open>v\<close>; in the second,
  \<^verbatim>\<open>v[None] * tf.ones((n, 1))\<close> repeats \<^verbatim>\<open>v\<close> once per row of \<^verbatim>\<open>self.rot\<close>.
\<close>

definition ref_point :: "Twist \<Rightarrow> vec3 tensor \<Rightarrow> Twist result" where
  "ref_point t v =
     (case (rot t, v) of
        (Single r, Batch vs) \<Rightarrow>
          (let rot' = Batch (map (\<lambda>_. r) vs) in
           rbind (tf_cross rot' v) (\<lambda>c.
           rbind (tf_add (vel t) c) (\<lambda>vel'.
           rbind (concat_axis1 vel' rot') (\<lambda>d. Inr \<lparr>dx = d\<rparr>))))
      | (Batch rs, Single v1) \<Rightarrow>
          (let n = length rs in
           rbind (tf_cross (rot t) (Batch (replicate n v1))) (\<lambda>c.
           rbind (tf_add (vel t) c) (\<lambda>vel'.
           rbind (concat_axis1 vel' (rot t)) (\<lambda>d. Inr \<lparr>dx = d\<rparr>))))
      | (Batch rs, Batch vs) \<Rightarrow>
           rbind (tf_cross (rot t) v) (\<lambda>c.
           rbind (tf_add (vel t) c) (\<lambda>vel'.
           rbind (concat_axis1 vel' (rot t)) (\<lambda>d. Inr \<lparr>dx = d\<rparr>)))
      | (Single r, Single v1) \<Rightarrow>
           rbind (tf_cross (rot t) v) (\<lambda>c.
           rbind (tf_add (vel t) c) (\<lambda>vel'.
           rbind (concat_axis0 vel' (rot t)) (\<lambda>d. Inr \<lparr>dx = d\<rparr>))))"

text \<open>
  Modelled from the spec: the helpers \<^verbatim>\<open>matvecmul\<close>, \<^verbatim>\<open>matmatmul\<close> and
  \<^verbatim>\<open>angular_vel_tensor\<close> of \<^verbatim>\<open>utils/tf_utils.py\<close> are not among the sources. The spec
  (4.1, 4.2) asks of the products that they combine two unbatched operands, a batched
  with an unbatched one (the unbatched side is repeated) and two batched ones pointwise,
  and of the last that it is "the angular-velocity tensor (3x3 skew-symmetric matrix built
  from the angular component)".
\<close>

fun pointwise :: "('a \<Rightarrow> 'b \<Rightarrow> 'c) \<Rightarrow> 'a tensor \<Rightarrow> 'b tensor \<Rightarrow> 'c tensor result" where
  "pointwise g (Single a) (Single b) = Inr (Single (g a b))"
| "pointwise g (Single a) (Batch bs) = Inr (Batch (map (g a) bs))"
| "pointwise g (Batch as) (Single b) = Inr (Batch (map (\<lambda>a. g a b) as))"
| "pointwise g (Batch as) (Batch bs) =
     (if length as = length bs then Inr (Batch (map2 g as bs)) else Inl ShapeError)"

definition matvecmul :: "mat3 tensor \<Rightarrow> vec3 tensor \<Rightarrow> vec3 tensor result" where
  "matvecmul = pointwise matvec"

definition matmatmul :: "mat3 tensor \<Rightarrow> mat3 tensor \<Rightarrow> mat3 tensor result" where
  "matmatmul = pointwise matmat"

fun skew :: "vec3 \<Rightarrow> mat3" where
  "skew (w1, w2, w3) = ((0, - w3, w2), (w3, 0, - w1), (- w2, w1, 0))"

definition angular_vel_tensor :: "vec3 tensor \<Rightarrow> mat3 tensor" where
  "angular_vel_tensor w = map_tensor skew w"

text \<open>
  \<^verbatim>\<open>Twist.__rmul__(self, other)\<close> for \<^verbatim>\<open>other\<close> a rotation tensor (the branch taken by
  \<^verbatim>\<open>T_tmp.m * twist\<close> in the Jacobian); for \<^verbatim>\<open>other\<close> a \<^verbatim>\<open>Frame\<close> the method raises
  \<^verbatim>\<open>NotImplementedError\<close>.
\<close>

definition Twist_rmul :: "mat3 tensor \<Rightarrow> Twist \<Rightarrow> Twist result" where
  "Twist_rmul other t =
     rbind (matvecmul other (rot t)) (\<lambda>rot'.
     rbind (matvecmul other (vel t)) (\<lambda>vel'.
     rbind (if is_batch (dx t) \<or> is_batch rot' then concat_axis1 vel' rot'
            else concat_axis0 vel' rot') (\<lambda>d. Inr \<lparr>dx = d\<rparr>)))"

section \<open>Frame\<close>

text \<open>
  \<^verbatim>\<open>class Frame\<close>: translation \<^verbatim>\<open>p\<close> and rotation matrix \<^verbatim>\<open>m\<close>.
  \<^verbatim>\<open>Frame.is_batch\<close> looks at the rank of \<^verbatim>\<open>m\<close> only.
\<close>

record Frame =
  p :: "vec3 tensor"
  m :: "mat3 tensor"

text \<open>
  \<^verbatim>\<open>Frame.__init__(p=None, m=None, batch_shape=None)\<close>: a missing argument is the zero
  translation, the identity rotation, or \<^verbatim>\<open>batch_shape\<close> copies of them.
\<close>

definition Frame_init :: "vec3 tensor option \<Rightarrow> mat3 tensor option \<Rightarrow> nat option \<Rightarrow> Frame" where
  "Frame_init p0 m0 batch_shape =
     (case batch_shape of
        None \<Rightarrow>
          \<lparr>p = (case p0 of None \<Rightarrow> Single zeros3 | Some v \<Rightarrow> v),
           m = (case m0 of None \<Rightarrow> Single eye3 | Some r \<Rightarrow> r)\<rparr>
      | Some n \<Rightarrow>
          \<lparr>p = (case p0 of None \<Rightarrow> Batch (replicate n zeros3) | Some v \<Rightarrow> v),
           m = (case m0 of None \<Rightarrow> Batch (replicate n eye3) | Some r \<Rightarrow> r)\<rparr>)"

fun list3 :: "vec3 \<Rightarrow> real list" where
  "list3 (a1, a2, a3) = [a1, a2, a3]"

text \<open>\<^verbatim>\<open>tf.reshape(m, [9])\<close>: the rows one after the other.\<close>

fun flat9 :: "mat3 \<Rightarrow> real list" where
  "flat9 (r1, r2, r3) = list3 r1 @ list3 r2 @ list3 r3"

text \<open>
  The layouts \<^verbatim>\<open>Frame.xm\<close> and \<^verbatim>\<open>Frame.xmv\<close>. \<^verbatim>\<open>tf.concat\<close> needs both parts of the
  same rank, and of the same batch size along axis 1. \<^verbatim>\<open>Frame.xq\<close> raises
  \<^verbatim>\<open>NotImplementedError\<close>.
\<close>

definition serialize :: "(mat3 \<Rightarrow> real list) \<Rightarrow> Frame \<Rightarrow> real list tensor result" where
  "serialize flat F =
     (case m F of
        Batch ms \<Rightarrow>
          (case p F of
             Batch ps \<Rightarrow>
               (if length ps = length ms
                then Inr (Batch (map2 (\<lambda>v r. list3 v @ flat r) ps ms))
                else Inl ShapeError)
           | Single v \<Rightarrow> Inl ShapeError)
      | Single r \<Rightarrow>
          (case p F of
             Single v \<Rightarrow> Inr (Single (list3 v @ flat r))
           | Batch ps \<Rightarrow> Inl ShapeError))"

definition Frame_xm :: "Frame \<Rightarrow> real list tensor result" where
  "Frame_xm F = serialize flat9 F"

definition Frame_xmv :: "Frame \<Rightarrow> real list tensor result" where
  "Frame_xmv F = serialize (\<lambda>r. flat9 (transpose3 r)) F"

definition Frame_xq :: "Frame \<Rightarrow> real list tensor result" where
  "Frame_xq F = Inl NotImplementedError"

text \<open>
  \<^verbatim>\<open>Frame.inv\<close>:
  \<^verbatim>\<open>Frame(p=-tf.matmul(self.m, tf.expand_dims(self.p, 1), transpose_a=True)[:,0],
        m=tf.transpose(self.m))\<close>.
  For \<^verbatim>\<open>p\<close> of shape \<^verbatim>\<open>(3,)\<close> and \<^verbatim>\<open>m\<close> of shape \<^verbatim>\<open>(3, 3)\<close> the product is the \<^verbatim>\<open>(3, 1)\<close>
  column of the transposed matrix times \<^verbatim>\<open>p\<close>. For \<^verbatim>\<open>p\<close> of shape \<^verbatim>\<open>(N, 3)\<close>,
  \<^verbatim>\<open>tf.expand_dims(self.p, 1)\<close> has shape \<^verbatim>\<open>(N, 1, 3)\<close>, whose 1 rows do not match the 3
  columns of the transposed \<^verbatim>\<open>m\<close>: \<^verbatim>\<open>tf.matmul\<close> raises. For \<^verbatim>\<open>m\<close> of shape
  \<^verbatim>\<open>(N, 3, 3)\<close> and \<^verbatim>\<open>p\<close> of shape \<^verbatim>\<open>(3,)\<close> nothing raises: \<^verbatim>\<open>tf.matmul\<close> repeats the
  \<^verbatim>\<open>(3, 1)\<close> column along the batch, the slice \<^verbatim>\<open>[:,0]\<close> of the \<^verbatim>\<open>(N, 3, 1)\<close> product keeps
  the first entry of each product, in the shape \<^verbatim>\<open>(N, 1)\<close>, and \<^verbatim>\<open>tf.transpose(self.m)\<close>,
  without a permutation, reverses the three axes to the shape \<^verbatim>\<open>(3, 3, N)\<close>. The
  \<^verbatim>\<open>Frame\<close> returned holds these two tensors, which are no translation and no rotation
  of a transform: the value \<open>Malformed\<close>, with the two tensors as nested lists.
\<close>

datatype inverse = Inverse Frame | Malformed "real list list" "real list list list"

fun rows3 :: "mat3 \<Rightarrow> real list list" where
  "rows3 (r1, r2, r3) = [list3 r1, list3 r2, list3 r3]"

definition Frame_inv :: "Frame \<Rightarrow> inverse result" where
  "Frame_inv F =
     (case (m F, p F) of
        (Single r, Single v) \<Rightarrow>
          Inr (Inverse \<lparr>p = Single (vneg (matvec (transpose3 r) v)), m = Single (transpose3 r)\<rparr>)
      | (Single r, Batch ps) \<Rightarrow> Inl ShapeError
      | (Batch ms, Batch ps) \<Rightarrow> Inl ShapeError
      | (Batch ms, Single v) \<Rightarrow>
          Inr (Malformed
                 (map (\<lambda>r. [fst (vneg (matvec (transpose3 r) v))]) ms)
                 (map (\<lambda>k. map (\<lambda>j. map (\<lambda>r. rows3 r ! j ! k) ms) [0..<3]) [0..<3])))"

text \<open>
  \<^verbatim>\<open>Frame.__mul__(self, other)\<close> for \<^verbatim>\<open>other\<close> a \<^verbatim>\<open>Frame\<close> (the last branch):
  \<^verbatim>\<open>Frame(p=matvecmul(self.m, other.p) + self.p, m=matmatmul(self.m, other.m))\<close>.
\<close>

definition Frame_mul :: "Frame \<Rightarrow> Frame \<Rightarrow> Frame result" where
  "Frame_mul A B =
     rbind (matvecmul (m A) (p B)) (\<lambda>v.
     rbind (tf_add v (p A)) (\<lambda>p'.
     rbind (matmatmul (m A) (m B)) (\<lambda>m'. Inr \<lparr>p = p', m = m'\<rparr>)))"

text \<open>
  \<^verbatim>\<open>Twist.dx_mat(self, m, layout)\<close>: the linear velocity followed by the nine entries of
  \<^verbatim>\<open>matmatmul(angular_vel_tensor(self.rot), m)\<close>, transposed first for the layout
  \<^verbatim>\<open>xmv\<close>. The twist's own rank picks the reshape: a batched twist reshapes to
  \<^verbatim>\<open>(-1, 9)\<close>; an unbatched one reshapes to \<^verbatim>\<open>(9,)\<close>, which a product of shape
  \<^verbatim>\<open>(N, 3, 3)\<close> allows only for \<^verbatim>\<open>N = 1\<close>, and transposes with \<^verbatim>\<open>perm=(1, 0)\<close>, which a
  product of rank 3 does not allow.
\<close>

definition dx_mat :: "Twist \<Rightarrow> mat3 tensor \<Rightarrow> bool \<Rightarrow> real list tensor result" where
  "dx_mat t m0 is_xmv =
     rbind (matmatmul (angular_vel_tensor (rot t)) m0) (\<lambda>dm_dphi.
       (case (vel t, dm_dphi) of
          (Batch vs, Batch ds) \<Rightarrow>
            (if length vs = length ds
             then Inr (Batch (map2 (\<lambda>v d. list3 v @ flat9 (if is_xmv then transpose3 d else d)) vs ds))
             else Inl ShapeError)
        | (Batch vs, Single d) \<Rightarrow> Inl ShapeError
        | (Single v, Single d) \<Rightarrow>
            Inr (Single (list3 v @ flat9 (if is_xmv then transpose3 d else d)))
        | (Single v, Batch ds) \<Rightarrow>
            (if is_xmv then Inl ShapeError
             else (case ds of [d] \<Rightarrow> Inr (Single (list3 v @ flat9 d)) | _ \<Rightarrow> Inl ShapeError))))"

section \<open>Segments, chains and layouts\<close>

text \<open>
  Modelled from the spec: \<^verbatim>\<open>JointType\<close> (\<^verbatim>\<open>joint.py\<close>), the segment, joint and link
  classes and \<^verbatim>\<open>FkLayout\<close> (\<^verbatim>\<open>utils\<close>) are not among the sources; \<^verbatim>\<open>chain.py\<close> uses the
  attributes below. The spec (3) gives a joint a type among Fixed, Rotational and
  Prismatic, a pure function from a joint value to the local transform and one from a
  joint value and a scale to a twist; a link a mass and a frame; a segment a joint, an
  optional link and a child name. \<^verbatim>\<open>chain.py\<close> tests a joint's type against
  \<^verbatim>\<open>JointType.NoneT\<close>, the fixed joint, only. The functions \<^verbatim>\<open>pose\<close> and \<^verbatim>\<open>twist\<close> and the
  attribute \<^verbatim>\<open>pose_0\<close> are parameters of the model: fields of the segment. The spec (6)
  names the five layouts; the constructors carry the prefix \<open>FkLayout_\<close> before the
  source's names \<^verbatim>\<open>x\<close>, \<^verbatim>\<open>xq\<close>, \<^verbatim>\<open>xm\<close>, \<^verbatim>\<open>xmv\<close>, \<^verbatim>\<open>f\<close>.
\<close>

datatype JointType = NoneT | Rotational | Prismatic

datatype FkLayout = FkLayout_x | FkLayout_xq | FkLayout_xm | FkLayout_xmv | FkLayout_f

record Joint =
  type :: JointType

record Link =
  mass :: real
  frame :: Frame

record Segment =
  joint :: Joint
  link :: "Link option"
  child_name :: string
  pose :: "real tensor \<Rightarrow> Frame"
  pose_0 :: Frame
  twist :: "real tensor \<Rightarrow> real \<Rightarrow> Twist"

text \<open>
  \<^verbatim>\<open>class Chain\<close>: the list of segments; \<^verbatim>\<open>__init__\<close> derives \<^verbatim>\<open>nb_segm\<close> and
  \<^verbatim>\<open>nb_joint\<close>, the properties \<^verbatim>\<open>masses\<close> and \<^verbatim>\<open>mass\<close> the masses of the segments that
  have a link and their sum.
\<close>

record Chain =
  segments :: "Segment list"

definition nb_segm :: "Chain \<Rightarrow> nat" where
  "nb_segm c = length (segments c)"

definition nb_joint :: "Chain \<Rightarrow> nat" where
  "nb_joint c = length (filter (\<lambda>seg. type (joint seg) \<noteq> NoneT) (segments c))"

fun link_masses :: "Segment list \<Rightarrow> real list" where
  "link_masses [] = []"
| "link_masses (seg # segs) =
     (case link seg of None \<Rightarrow> link_masses segs | Some l \<Rightarrow> mass l # link_masses segs)"

definition masses :: "Chain \<Rightarrow> real list" where
  "masses c = link_masses (segments c)"

definition Chain_mass :: "Chain \<Rightarrow> real" where
  "Chain_mass c = sum_list (link_masses (segments c))"

text \<open>
  The joint vector \<^verbatim>\<open>q\<close>: a Python list of joint values (as \<^verbatim>\<open>ChainDict\<close> passes it), a
  tensor of shape \<^verbatim>\<open>(nb_joint,)\<close>, a tensor of shape \<^verbatim>\<open>(N, nb_joint)\<close>, kept as the list
  of its \<^verbatim>\<open>nb_joint\<close> columns \<^verbatim>\<open>q[:, j]\<close>, or a tensor of rank 0.
\<close>

datatype joints =
    QList "real tensor list"
  | QVec "real list"
  | QMat "real list list"
  | QScalar

text \<open>
  The read of \<^verbatim>\<open>Chain.xs\<close>: \<^verbatim>\<open>q[j]\<close> for a list or a tensor of rank 1, \<^verbatim>\<open>q[:, j]\<close> for a
  tensor of rank 2, and \<^verbatim>\<open>raise NotImplementedError\<close> otherwise. A read past the end
  raises (for a tensor, TensorFlow's out-of-bounds slice error).
\<close>

fun xs_q :: "joints \<Rightarrow> nat \<Rightarrow> real tensor result" where
  "xs_q (QList qs) j = (if j < length qs then Inr (qs ! j) else Inl IndexError)"
| "xs_q (QVec v) j = (if j < length v then Inr (Single (v ! j)) else Inl IndexError)"
| "xs_q (QMat cols) j = (if j < length cols then Inr (Batch (cols ! j)) else Inl IndexError)"
| "xs_q QScalar j = Inl NotImplementedError"

text \<open>
  The read of \<^verbatim>\<open>Chain.jacobian\<close>: \<^verbatim>\<open>q[:, j] if is_batch else q[j]\<close> with
  \<^verbatim>\<open>is_batch = not isinstance(q, list) and q.shape.ndims == 2\<close>.
\<close>

fun jac_q :: "joints \<Rightarrow> nat \<Rightarrow> real tensor result" where
  "jac_q (QList qs) j = (if j < length qs then Inr (qs ! j) else Inl IndexError)"
| "jac_q (QVec v) j = (if j < length v then Inr (Single (v ! j)) else Inl IndexError)"
| "jac_q (QMat cols) j = (if j < length cols then Inr (Batch (cols ! j)) else Inl IndexError)"
| "jac_q QScalar j = Inl IndexError"

text \<open>
  The floating base: \<^verbatim>\<open>None\<close>, a tuple or list \<^verbatim>\<open>(p, m)\<close>, a \<^verbatim>\<open>Frame\<close>, or a value of
  another type, for which both \<^verbatim>\<open>xs\<close> and \<^verbatim>\<open>jacobian\<close> raise \<^verbatim>\<open>ValueError\<close>.
\<close>

datatype floating_base =
    NoBase
  | BaseTuple "vec3 tensor" "mat3 tensor"
  | BaseFrame Frame
  | BaseOther

fun base_frame :: "floating_base \<Rightarrow> Frame result" where
  "base_frame NoBase = Inr (Frame_init None None None)"
| "base_frame (BaseTuple p0 m0) = Inr (Frame_init (Some p0) (Some m0) None)"
| "base_frame (BaseFrame F) = Inr F"
| "base_frame BaseOther = Inl ValueError"

subsection \<open>Stacking and layouts\<close>

text \<open>A list comprehension whose body may raise stops at the first exception.\<close>

fun rmap :: "('a \<Rightarrow> 'b result) \<Rightarrow> 'a list \<Rightarrow> 'b list result" where
  "rmap g [] = Inr []"
| "rmap g (a # as) = rbind (g a) (\<lambda>b. rbind (rmap g as) (\<lambda>bs. Inr (b # bs)))"

text \<open>
  \<^verbatim>\<open>tf.stack(vecs)\<close> needs all its arguments of one shape: all of shape \<^verbatim>\<open>(d,)\<close>, or all
  of shape \<^verbatim>\<open>(N, d)\<close> for one \<^verbatim>\<open>N\<close>. (The width \<^verbatim>\<open>d\<close> is the same by construction: the
  vectors of one stack come from one layout.)
\<close>

fun stack_single :: "'a tensor list \<Rightarrow> 'a list result" where
  "stack_single [] = Inr []"
| "stack_single (Single a # vs) = rbind (stack_single vs) (\<lambda>as. Inr (a # as))"
| "stack_single (Batch as # vs) = Inl ShapeError"

fun stack_batched :: "nat \<Rightarrow> 'a tensor list \<Rightarrow> 'a list list result" where
  "stack_batched N [] = Inr []"
| "stack_batched N (Single a # vs) = Inl ShapeError"
| "stack_batched N (Batch as # vs) =
     (if length as = N then rbind (stack_batched N vs) (\<lambda>bs. Inr (as # bs)) else Inl ShapeError)"

text \<open>
  A stack of \<^verbatim>\<open>S\<close> vectors: of shape \<^verbatim>\<open>(S, d)\<close>, the list of its \<^verbatim>\<open>S\<close> rows, or of shape
  \<^verbatim>\<open>(N, S, d)\<close>, kept as the list of its \<^verbatim>\<open>S\<close> slices \<^verbatim>\<open>[:, s, :]\<close>, each the list of its
  \<^verbatim>\<open>N\<close> rows: the entry \<^verbatim>\<open>[n, s, k]\<close> of the tensor is \<open>t ! s ! n ! k\<close>. Under this
  storage a transposition of the axes changes the shape the tensor has in TensorFlow and
  not the stored list.
\<close>

datatype stacked =
    Rank2 "real list list"
  | Rank3 "real list list list"

text \<open>
  \<^verbatim>\<open>stack_batch(vecs)\<close>: \<^verbatim>\<open>vecs[0]\<close> on the empty list raises; a first vector without the
  batch axis is repeated \<^verbatim>\<open>tf.shape(vecs[-1])[0]\<close> times when the last one has the batch
  axis; then \<^verbatim>\<open>tf.stack\<close>, followed for batched vectors by the transposition to
  \<^verbatim>\<open>(N, S, d)\<close>. (The last branch, \<^verbatim>\<open>return NotImplementedError\<close> for vectors of rank 3
  and more, has no input in this model.)
\<close>

definition stack_batch :: "real list tensor list \<Rightarrow> stacked result" where
  "stack_batch vecs =
     (case vecs of
        [] \<Rightarrow> Inl IndexError
      | v0 # rest \<Rightarrow>
          (case last vecs of
             Single l \<Rightarrow> rbind (stack_single vecs) (\<lambda>rows. Inr (Rank2 rows))
           | Batch ls \<Rightarrow>
               (let N = length ls;
                    v0' = (case v0 of Single a \<Rightarrow> Batch (replicate N a) | Batch as \<Rightarrow> v0)
                in rbind (stack_batched N (v0' # rest)) (\<lambda>slices. Inr (Rank3 slices)))))"

text \<open>
  \<^verbatim>\<open>return_frame(p, layout)\<close>: for one frame the attribute the layout names, for a list
  of frames the stack of the attributes, and for the layout \<^verbatim>\<open>f\<close> the argument itself.
\<close>

datatype fk_out =
    Flat "real list tensor"
  | Stacked stacked
  | AFrame Frame
  | Frames "Frame list"

fun layout_attr :: "FkLayout \<Rightarrow> Frame \<Rightarrow> real list tensor result" where
  "layout_attr FkLayout_x F = Inr (map_tensor list3 (p F))"
| "layout_attr FkLayout_xq F = Frame_xq F"
| "layout_attr FkLayout_xm F = Frame_xm F"
| "layout_attr FkLayout_xmv F = Frame_xmv F"
| "layout_attr FkLayout_f F = Inl NotImplementedError"

definition return_frame :: "Frame \<Rightarrow> FkLayout \<Rightarrow> fk_out result" where
  "return_frame F layout =
     (if layout = FkLayout_f then Inr (AFrame F)
      else rbind (layout_attr layout F) (\<lambda>v. Inr (Flat v)))"

definition return_frame_list :: "Frame list \<Rightarrow> FkLayout \<Rightarrow> fk_out result" where
  "return_frame_list Fs layout =
     (if layout = FkLayout_f then Inr (Frames Fs)
      else rbind (rmap (layout_attr layout) Fs) (\<lambda>vecs.
           rbind (stack_batch vecs) (\<lambda>st. Inr (Stacked st))))"

section \<open>Chain: forward kinematics\<close>

definition actuated :: "Segment \<Rightarrow> bool" where
  "actuated seg = (type (joint seg) \<noteq> NoneT)"

text \<open>
  \<^verbatim>\<open>Chain.ee_frame(q, n, layout)\<close>. The first segment is composed before the loop, from
  \<^verbatim>\<open>q[0]\<close> or \<^verbatim>\<open>q[:, 0]\<close> according to the rank of \<^verbatim>\<open>q\<close>, which is looked at first; a
  Python list has no attribute \<^verbatim>\<open>shape\<close>, and for another rank \<^verbatim>\<open>p\<close> stays unassigned
  (\<open>None\<close> below). The loop runs
  over the segments \<^verbatim>\<open>1 .. nb_segm - n - 1\<close> with the index \<^verbatim>\<open>j\<close> starting at 1.
\<close>

fun ee_q :: "joints \<Rightarrow> nat \<Rightarrow> real tensor result" where
  "ee_q (QList qs) j = Inl AttributeError"
| "ee_q (QVec v) j = (if j < length v then Inr (Single (v ! j)) else Inl IndexError)"
| "ee_q (QMat cols) j = (if j < length cols then Inr (Batch (cols ! j)) else Inl IndexError)"
| "ee_q QScalar j = Inl NotImplementedError"

definition ee_first :: "Segment list \<Rightarrow> joints \<Rightarrow> Frame option result" where
  "ee_first segs q =
     (case q of
        QList qs \<Rightarrow> Inl AttributeError
      | QScalar \<Rightarrow> Inr None
      | _ \<Rightarrow>
          (case segs of
             [] \<Rightarrow> Inl IndexError
           | seg0 # rest \<Rightarrow> rbind (ee_q q 0) (\<lambda>q0. Inr (Some (pose seg0 q0)))))"

fun ee_loop :: "Segment list \<Rightarrow> joints \<Rightarrow> Frame option \<Rightarrow> nat \<Rightarrow> Frame option result" where
  "ee_loop [] q cur j = Inr cur"
| "ee_loop (seg # segs) q cur j =
     (if actuated seg then
        rbind (ee_q q j) (\<lambda>qj.
          (case cur of
             None \<Rightarrow> Inl UnboundLocalError
           | Some F \<Rightarrow> rbind (Frame_mul F (pose seg qj)) (\<lambda>F'. ee_loop segs q (Some F') (j + 1))))
      else
        (case cur of
           None \<Rightarrow> Inl UnboundLocalError
         | Some F \<Rightarrow> rbind (Frame_mul F (pose seg (Single 0))) (\<lambda>F'. ee_loop segs q (Some F') j)))"

text \<open>
  The loop visits \<^verbatim>\<open>range(1, nb_segm - n)\<close>; when the range runs past the last
  segment (a negative \<^verbatim>\<open>n\<close>), \<^verbatim>\<open>self.segments[i]\<close> raises once the segments are used
  up.
\<close>

definition ee_frame :: "Chain \<Rightarrow> joints \<Rightarrow> int \<Rightarrow> FkLayout \<Rightarrow> fk_out result" where
  "ee_frame c q n layout =
     rbind (ee_first (segments c) q) (\<lambda>cur.
     rbind (ee_loop (take (nat (int (nb_segm c) - n) - 1) (drop 1 (segments c))) q cur 1) (\<lambda>cur'.
       if int (nb_segm c) - n > max (int (nb_segm c)) 1 then Inl IndexError
       else (case cur' of
               None \<Rightarrow> Inl UnboundLocalError
             | Some F \<Rightarrow> return_frame F layout)))"

text \<open>
  \<^verbatim>\<open>Chain.xs(q, layout, floating_base, get_links)\<close>, with \<^verbatim>\<open>get_collision_samples\<close> at
  its default \<^verbatim>\<open>False\<close> (collision meshes are outside the model). The loop appends to
  the list \<^verbatim>\<open>p\<close>, whose last element \<^verbatim>\<open>p[-1]\<close> is the argument \<open>cur\<close> below, and to
  \<^verbatim>\<open>links\<close>; the function returns what the loop appends after the base frame.
\<close>

definition link_frames :: "bool \<Rightarrow> Segment \<Rightarrow> Frame \<Rightarrow> Frame list result" where
  "link_frames get_links seg F =
     (case link seg of
        None \<Rightarrow> Inr []
      | Some l \<Rightarrow> (if get_links then rbind (Frame_mul F (frame l)) (\<lambda>L. Inr [L]) else Inr []))"

fun xs_loop :: "Segment list \<Rightarrow> joints \<Rightarrow> bool \<Rightarrow> Frame \<Rightarrow> nat \<Rightarrow> (Frame list \<times> Frame list) result" where
  "xs_loop [] q get_links cur j = Inr ([], [])"
| "xs_loop (seg # segs) q get_links cur j =
     (if actuated seg then
        rbind (xs_q q j) (\<lambda>qj.
        rbind (Frame_mul cur (pose seg qj)) (\<lambda>F.
        rbind (link_frames get_links seg F) (\<lambda>ls.
        rbind (xs_loop segs q get_links F (j + 1)) (\<lambda>(ps, links).
          Inr (F # ps, ls @ links)))))
      else
        rbind (Frame_mul cur (pose seg (Single 0))) (\<lambda>F.
        rbind (link_frames get_links seg F) (\<lambda>ls.
        rbind (xs_loop segs q get_links F j) (\<lambda>(ps, links).
          Inr (F # ps, ls @ links)))))"

text \<open>
  The centre of mass:
  \<^verbatim>\<open>tf.reduce_sum(self.masses[None, :, None] * links_stacked[..., 1:, :3], axis=-2)/self.mass\<close>.
  For the layout \<^verbatim>\<open>f\<close>, \<^verbatim>\<open>links_stacked\<close> is the Python list of frames, which cannot be
  indexed by a tuple. The sum over the links has shape \<^verbatim>\<open>(1, 3)\<close> for an unbatched stack
  and \<^verbatim>\<open>(N, 3)\<close> for a batched one. The division is a division of floats: by zero it
  raises nothing and gives \<^verbatim>\<open>nan\<close> or an infinity in every entry, the value
  \<open>DividedByZero\<close>; by another divisor the value \<open>Quotient\<close> keeps the quotient of the
  real numbers, which the float division rounds (overflow, and operands that are
  \<^verbatim>\<open>nan\<close> or infinite, are beyond the real numbers kept here).
\<close>

datatype com = Quotient "real list list" | DividedByZero

definition scale3 :: "real \<Rightarrow> real list \<Rightarrow> real list" where
  "scale3 w row = map (\<lambda>a. w * a) (take 3 row)"

fun weighted_sum :: "real list \<Rightarrow> real list list \<Rightarrow> real list" where
  "weighted_sum (w # ws) (row # rows) = map2 (+) (scale3 w row) (weighted_sum ws rows)"
| "weighted_sum ws rows = [0, 0, 0]"

fun weighted_sum_batch :: "nat \<Rightarrow> real list \<Rightarrow> real list list list \<Rightarrow> real list list" where
  "weighted_sum_batch N (w # ws) (slice # slices) =
     map2 (map2 (+)) (map (scale3 w) slice) (weighted_sum_batch N ws slices)"
| "weighted_sum_batch N ws slices = replicate N [0, 0, 0]"

definition tf_div :: "real list list \<Rightarrow> real \<Rightarrow> com" where
  "tf_div t d = (if d = 0 then DividedByZero else Quotient (map (map (\<lambda>a. a / d)) t))"

fun center_of_mass :: "real list \<Rightarrow> real \<Rightarrow> fk_out \<Rightarrow> com result" where
  "center_of_mass ms mtot (Stacked (Rank2 rows)) =
     Inr (tf_div [weighted_sum ms (drop 1 rows)] mtot)"
| "center_of_mass ms mtot (Stacked (Rank3 slices)) =
     Inr (tf_div (weighted_sum_batch (case slices of [] \<Rightarrow> 0 | s0 # _ \<Rightarrow> length s0)
                    ms (drop 1 slices)) mtot)"
| "center_of_mass ms mtot (Frames Fs) = Inl TypeError"
| "center_of_mass ms mtot (Flat v) = Inl TypeError"
| "center_of_mass ms mtot (AFrame F) = Inl TypeError"

definition Chain_xs ::
  "Chain \<Rightarrow> joints \<Rightarrow> FkLayout \<Rightarrow> floating_base \<Rightarrow> bool \<Rightarrow> (fk_out \<times> (fk_out \<times> com) option) result" where
  "Chain_xs c q layout floating get_links =
     rbind (base_frame floating) (\<lambda>b.
     rbind (xs_loop (segments c) q get_links b 0) (\<lambda>(ps, links).
       if get_links then
         rbind (return_frame_list (b # links) layout) (\<lambda>links_stacked.
         rbind (center_of_mass (masses c) (Chain_mass c) links_stacked) (\<lambda>cm.
         rbind (return_frame_list (b # ps) layout) (\<lambda>out.
           Inr (out, Some (links_stacked, cm)))))
       else
         rbind (return_frame_list (b # ps) layout) (\<lambda>out. Inr (out, None))))"

section \<open>Chain: the Jacobian\<close>

text \<open>
  The loop of \<^verbatim>\<open>Chain.jacobian\<close> over the state \<^verbatim>\<open>(T_tmp, j, jac)\<close>. An actuated
  segment reads \<^verbatim>\<open>_q\<close>, composes \<^verbatim>\<open>total = T_tmp * pose(_q)\<close> and rotates its twist,
  \<^verbatim>\<open>t_tmp = T_tmp.m * twist(_q, 1.0)\<close>; a fixed one composes \<^verbatim>\<open>T_tmp * pose_0\<close>. A
  non-empty \<^verbatim>\<open>jac\<close> is then replaced by
  \<^verbatim>\<open>[_t.ref_point(total.p - T_tmp.p) for _t in jac]\<close>, and the new twist of an actuated
  segment is appended after that.
\<close>

definition transport :: "Frame \<Rightarrow> Frame \<Rightarrow> Twist list \<Rightarrow> Twist list result" where
  "transport tot T_tmp jac =
     (if jac = [] then Inr []
      else rmap (\<lambda>t. rbind (tf_sub (p tot) (p T_tmp)) (\<lambda>d. ref_point t d)) jac)"

fun jac_loop ::
  "Segment list \<Rightarrow> joints \<Rightarrow> Frame \<times> nat \<times> Twist list \<Rightarrow> (Frame \<times> nat \<times> Twist list) result" where
  "jac_loop [] q st = Inr st"
| "jac_loop (seg # segs) q (T_tmp, j, jac) =
     (if actuated seg then
        rbind (jac_q q j) (\<lambda>qj.
        rbind (Frame_mul T_tmp (pose seg qj)) (\<lambda>tot.
        rbind (Twist_rmul (m T_tmp) (twist seg qj 1)) (\<lambda>t_tmp.
        rbind (transport tot T_tmp jac) (\<lambda>jac'.
          jac_loop segs q (tot, j + 1, jac' @ [t_tmp])))))
      else
        rbind (Frame_mul T_tmp (pose_0 seg)) (\<lambda>tot.
        rbind (transport tot T_tmp jac) (\<lambda>jac'.
          jac_loop segs q (tot, j, jac'))))"

fun flat6 :: "vec6 \<Rightarrow> real list" where
  "flat6 (v, w) = list3 v @ list3 w"

text \<open>
  \<^verbatim>\<open>tf.transpose(t, (0, 2, 1))\<close> needs a tensor of rank 3. Of the tensor of shape
  \<^verbatim>\<open>(N, J, d)\<close> it makes the one of shape \<^verbatim>\<open>(N, d, J)\<close>, kept as before as the list of
  its \<^verbatim>\<open>J\<close> columns \<^verbatim>\<open>[:, :, j]\<close>, each of \<^verbatim>\<open>N\<close> rows of width \<^verbatim>\<open>d\<close>.
\<close>

fun transpose_021 :: "stacked \<Rightarrow> real list list list result" where
  "transpose_021 (Rank2 rows) = Inl ShapeError"
| "transpose_021 (Rank3 slices) = Inr slices"

text \<open>
  \<^verbatim>\<open>Chain.jacobian(q, n, layout, floating_base)\<close>. The loop visits
  \<^verbatim>\<open>range(self.nb_segm - n)\<close>; for a negative \<^verbatim>\<open>n\<close> it runs past the last segment and
  \<^verbatim>\<open>self.segments[i]\<close> raises. The layouts \<^verbatim>\<open>xm\<close> and \<^verbatim>\<open>xmv\<close> stack the \<^verbatim>\<open>dx_mat\<close> of
  the twists, \<^verbatim>\<open>xq\<close> and \<^verbatim>\<open>x\<close> the twists themselves, \<^verbatim>\<open>x\<close> keeping the first three rows
  (\<^verbatim>\<open>[:, :3]\<close>); any other layout raises \<^verbatim>\<open>NotImplementedError\<close>.
\<close>

definition Chain_jacobian ::
  "Chain \<Rightarrow> joints \<Rightarrow> int \<Rightarrow> FkLayout \<Rightarrow> floating_base \<Rightarrow> real list list list result" where
  "Chain_jacobian c q n layout floating =
     rbind (base_frame floating) (\<lambda>T0.
     rbind (jac_loop (take (nat (int (nb_segm c) - n)) (segments c)) q (T0, 0, [])) (\<lambda>(tot, j, jac).
       if n < 0 then Inl IndexError
       else if layout = FkLayout_xm \<or> layout = FkLayout_xmv then
         rbind (rmap (\<lambda>t. dx_mat t (m tot) (layout = FkLayout_xmv)) jac) (\<lambda>vecs.
         rbind (stack_batch vecs) transpose_021)
       else if layout = FkLayout_xq then
         rbind (stack_batch (map (\<lambda>t. map_tensor flat6 (dx t)) jac)) transpose_021
       else if layout = FkLayout_x then
         rbind (stack_batch (map (\<lambda>t. map_tensor flat6 (dx t)) jac)) (\<lambda>st.
         rbind (transpose_021 st) (\<lambda>J. Inr (map (map (take 3)) J)))
       else Inl NotImplementedError))"

section \<open>ChainDict\<close>

text \<open>
  \<^verbatim>\<open>class ChainDict(OrderedDict, Chain)\<close>: the chains by name, in insertion order.
  \<^verbatim>\<open>actuated_joint_names\<close> fills \<^verbatim>\<open>_names\<close> and \<^verbatim>\<open>_unique_names\<close> chain by chain. The
  comprehension that extends \<^verbatim>\<open>_unique_names\<close> tests each name of a chain against the
  list as it was before that chain: it is evaluated in full before \<^verbatim>\<open>+=\<close> appends it.
\<close>

type_synonym ChainDict = "(string \<times> Chain) list"

definition chain_names :: "Chain \<Rightarrow> string list" where
  "chain_names c = map child_name (filter actuated (segments c))"

fun names_loop :: "Chain list \<Rightarrow> string list \<times> string list \<Rightarrow> string list \<times> string list" where
  "names_loop [] st = st"
| "names_loop (c # cs) (names, unique_names) =
     names_loop cs
       (names @ chain_names c,
        unique_names @ filter (\<lambda>name. name \<notin> set unique_names) (chain_names c))"


definition unique_names :: "ChainDict \<Rightarrow> string list" where
  "unique_names cd = snd (names_loop (map snd cd) ([], []))"














section \<open>The spec's operations, and example segments\<close>



text \<open>A rotation matrix is orthonormal: its product with its transpose is the identity.\<close>

definition orthonormal :: "mat3 \<Rightarrow> bool" where
  "orthonormal r = (matmat r (transpose3 r) = eye3)"

text \<open>
  Segments to run the operations on. A prismatic joint slides along a fixed axis: its
  pose is the translation by the joint value along the axis, one per joint value of a
  batch, and its twist the axis scaled. A fixed segment is a constant translation.
\<close>

fun scale :: "real \<Rightarrow> vec3 \<Rightarrow> vec3" where
  "scale a (b1, b2, b3) = (a * b1, a * b2, a * b3)"

fun prismatic_pose :: "vec3 \<Rightarrow> real tensor \<Rightarrow> Frame" where
  "prismatic_pose ax (Single a) = \<lparr>p = Single (scale a ax), m = Single eye3\<rparr>"
| "prismatic_pose ax (Batch as) =
     \<lparr>p = Batch (map (\<lambda>a. scale a ax) as), m = Batch (map (\<lambda>a. eye3) as)\<rparr>"

fun prismatic_twist :: "vec3 \<Rightarrow> real tensor \<Rightarrow> real \<Rightarrow> Twist" where
  "prismatic_twist ax (Single a) s = \<lparr>dx = Single (scale s ax, zeros3)\<rparr>"
| "prismatic_twist ax (Batch as) s = \<lparr>dx = Batch (map (\<lambda>a. (scale s ax, zeros3)) as)\<rparr>"

definition prismatic :: "string \<Rightarrow> vec3 \<Rightarrow> Segment" where
  "prismatic name ax =
     \<lparr>joint = \<lparr>type = Prismatic\<rparr>, link = None, child_name = name,
      pose = prismatic_pose ax, pose_0 = prismatic_pose ax (Single 0),
      twist = prismatic_twist ax\<rparr>"

definition fixed_segment :: "string \<Rightarrow> vec3 \<Rightarrow> Link option \<Rightarrow> Segment" where
  "fixed_segment name off l =
     \<lparr>joint = \<lparr>type = NoneT\<rparr>, link = l, child_name = name,
      pose = (\<lambda>a. \<lparr>p = Single off, m = Single eye3\<rparr>),
      pose_0 = \<lparr>p = Single off, m = Single eye3\<rparr>,
      twist = (\<lambda>a s. \<lparr>dx = Single (zeros3, zeros3)\<rparr>)\<rparr>"


text \<open>A chain of a fixed segment followed by a prismatic joint: one actuated joint.\<close>

definition fixed_then_prismatic :: Chain where
  "fixed_then_prismatic =
     \<lparr>segments = [fixed_segment ''base'' (1, 0, 0) None, prismatic ''j1'' (1, 0, 0)]\<rparr>"










section \<open>Notions the properties are stated with\<close>

text \<open>
  The spec's words for forward kinematics (4.3): a non-fixed segment "consumes the next
  unused component of q", a fixed one is composed "with localPose(0)". The component due
  to segment \<open>i\<close> is the one numbered by the actuated segments before it; \<open>joint_value\<close>
  is the joint value due to segment \<open>i\<close> when the first component to consume is \<open>j\<close>.
\<close>

definition joint_index :: "Segment list \<Rightarrow> nat \<Rightarrow> nat" where
  "joint_index segs i = length (filter actuated (take i segs))"





section \<open>Properties of the twist transport\<close>

lemma rbind_simps [simp]:
  "rbind (Inl e) k = Inl e"
  "rbind (Inr v) k = k v"
  by (simp_all add: rbind_def)











section \<open>Properties of the transform algebra\<close>

lemma matvec_matmat: "matvec (matmat A B) v = matvec A (matvec B v)"
  by (cases A rule: prod_cases3; cases B rule: prod_cases3; cases v)
     (auto simp: algebra_simps)

lemma matvec_vneg: "matvec A (vneg v) = vneg (matvec A v)"
  by (cases A rule: prod_cases3; cases v) (auto simp: algebra_simps)

lemma matvec_eye3: "matvec eye3 v = v"
  by (cases v) (simp add: eye3_def)

lemma vadd_vneg: "vadd (vneg v) v = zeros3"
  by (cases v) (simp add: zeros3_def)

text \<open>
  An unbatched transform with an orthonormal rotation, composed with its inverse, is the
  identity transform \<^verbatim>\<open>Frame()\<close>, exactly.
\<close>

lemma Frame_mul_inv_unbatched:
  assumes "orthonormal r"
  shows "Frame_inv \<lparr>p = Single v, m = Single r\<rparr>
           = Inr (Inverse \<lparr>p = Single (vneg (matvec (transpose3 r) v)), m = Single (transpose3 r)\<rparr>)
       \<and> Frame_mul \<lparr>p = Single v, m = Single r\<rparr>
           \<lparr>p = Single (vneg (matvec (transpose3 r) v)), m = Single (transpose3 r)\<rparr>
           = Inr (Frame_init None None None)"
proof -
  have "matvec r (vneg (matvec (transpose3 r) v)) = vneg v"
    using assms by (simp add: matvec_vneg matvec_matmat [symmetric] orthonormal_def matvec_eye3)
  then show ?thesis
    using assms
    by (simp add: Frame_inv_def Frame_mul_def matvecmul_def matmatmul_def tf_add_def
        Frame_init_def orthonormal_def vadd_vneg)
qed

text \<open>
  Claim C2 at a batched transform. \<^verbatim>\<open>Frame.inv\<close> has no branch for a batched frame:
  for every transform whose translation and rotation carry the batch axis, among them
  \<^verbatim>\<open>Frame(batch_shape=2)\<close>, two identity transforms, it raises a shape error, so that
  the composition with the inverse is never reached.
\<close>

theorem Frame_inv_batched_raises:
  "Frame_inv \<lparr>p = Batch ps, m = Batch ms\<rparr> = Inl ShapeError
   \<and> Frame_inv (Frame_init None None (Some 2)) = Inl ShapeError"
  by (simp add: Frame_inv_def Frame_init_def)

section \<open>Properties of the Jacobian of a chain\<close>

lemma transport_Nil [simp]: "transport tot T [] = Inr []"
  by (simp add: transport_def)

lemma stack_batch_Nil [simp]: "stack_batch [] = Inl IndexError"
  by (simp add: stack_batch_def)

text \<open>Over fixed segments the loop appends no column and reads no joint value.\<close>

lemma jac_loop_fixed:
  "list_all (\<lambda>s. \<not> actuated s) segs \<Longrightarrow> jac_loop segs q (T, j, []) = Inr (T', j', jac)
   \<Longrightarrow> jac = [] \<and> j' = j"
proof (induction segs arbitrary: T)
  case Nil
  then show ?case by simp
next
  case (Cons seg segs)
  then show ?case
    by (cases "Frame_mul T (pose_0 seg)") auto
qed

lemma nb_joint_fixed_only:
  "list_all (\<lambda>s. \<not> actuated s) (segments c) \<Longrightarrow> nb_joint c = 0"
  by (simp add: nb_joint_def actuated_def list_all_iff)

text \<open>
  The Jacobian of a chain of fixed segments raises for every joint vector, truncation,
  layout and floating base: the list of columns stays empty, and \<^verbatim>\<open>stack_batch\<close> reads
  \<^verbatim>\<open>vecs[0]\<close>.
\<close>

lemma jacobian_fixed_only:
  assumes "list_all (\<lambda>s. \<not> actuated s) (segments c)"
  shows "\<exists>e. Chain_jacobian c q n layout floating = Inl e"
proof (cases "base_frame floating")
  case (Inl e)
  then show ?thesis by (simp add: Chain_jacobian_def)
next
  case (Inr T0)
  let ?segs = "take (nat (int (nb_segm c) - n)) (segments c)"
  have fixed: "list_all (\<lambda>s. \<not> actuated s) ?segs"
    using assms by (auto simp: list_all_iff dest: in_set_takeD)
  show ?thesis
  proof (cases "jac_loop ?segs q (T0, 0, [])")
    case (Inl e)
    then show ?thesis using Inr by (simp add: Chain_jacobian_def)
  next
    case loop: (Inr st)
    obtain tot j jac where st: "st = (tot, j, jac)" by (cases st)
    have "jac = []" using jac_loop_fixed [OF fixed] loop st by blast
    then show ?thesis
      using Inr loop st by (simp add: Chain_jacobian_def)
  qed
qed

text \<open>
  Claim C8 at a chain of one fixed segment, with a joint matrix of no column: the count of
  actuated joints is 0, and \<^verbatim>\<open>Chain.jacobian\<close> raises \<^verbatim>\<open>IndexError\<close> where the claim has
  it return a matrix with no column.
\<close>

theorem jacobian_fixed_only_raises:
  "nb_joint \<lparr>segments = [fixed_segment ''base'' (1, 0, 0) None]\<rparr> = 0
   \<and> Chain_jacobian \<lparr>segments = [fixed_segment ''base'' (1, 0, 0) None]\<rparr> (QMat []) 0
        FkLayout_xm NoBase = Inl IndexError"
  by (simp add: nb_joint_def Chain_jacobian_def nb_segm_def fixed_segment_def actuated_def
      Frame_init_def Frame_mul_def matvecmul_def matmatmul_def tf_add_def)

section \<open>The quaternion layout\<close>

lemma return_frame_xq [simp]: "return_frame F FkLayout_xq = Inl NotImplementedError"
  by (simp add: return_frame_def Frame_xq_def)

lemma return_frame_list_xq [simp]:
  "return_frame_list (F # Fs) FkLayout_xq = Inl NotImplementedError"
  by (simp add: return_frame_list_def Frame_xq_def)

lemma Chain_xs_xq:
  "Chain_xs c q FkLayout_xq floating get_links =
     rbind (base_frame floating) (\<lambda>b.
     rbind (xs_loop (segments c) q get_links b 0) (\<lambda>r. Inl NotImplementedError))"
  by (auto simp: Chain_xs_def rbind_def split: sum.splits prod.splits)

lemma ee_frame_xq: "\<exists>e. ee_frame c q n FkLayout_xq = Inl e"
  by (auto simp: ee_frame_def rbind_def split: sum.splits list.splits option.splits)

lemma jacobian_x_from_xq:
  "Chain_jacobian c q n FkLayout_x floating =
     rbind (Chain_jacobian c q n FkLayout_xq floating) (\<lambda>J. Inr (map (map (take 3)) J))"
  by (auto simp: Chain_jacobian_def rbind_def split: sum.splits prod.splits)

text \<open>
  Claim C5, as the code has it. The quaternion layout asked of the serialization of one
  pose or of a list of poses raises \<^verbatim>\<open>NotImplementedError\<close>; asked of \<^verbatim>\<open>Chain.xs\<close> it
  raises \<^verbatim>\<open>NotImplementedError\<close> as soon as the loop over the segments has completed (an
  exception of the loop comes first), with and without the links; asked of
  \<^verbatim>\<open>Chain.ee_frame\<close> it raises. None of them returns a value. \<^verbatim>\<open>Chain.jacobian\<close> has a
  branch of its own for the layout: it returns the stacked twists, six rows for each
  joint, the matrix of which the layout \<^verbatim>\<open>x\<close> keeps the first three rows.
\<close>

theorem xq_layout:
  "return_frame F FkLayout_xq = Inl NotImplementedError
   \<and> return_frame_list (F # Fs) FkLayout_xq = Inl NotImplementedError
   \<and> Chain_xs c q FkLayout_xq floating get_links =
       rbind (base_frame floating) (\<lambda>b.
       rbind (xs_loop (segments c) q get_links b 0) (\<lambda>r. Inl NotImplementedError))
   \<and> (\<exists>e. ee_frame c q n FkLayout_xq = Inl e)
   \<and> Chain_jacobian c q n FkLayout_x floating =
       rbind (Chain_jacobian c q n FkLayout_xq floating) (\<lambda>J. Inr (map (map (take 3)) J))"
  using Chain_xs_xq ee_frame_xq jacobian_x_from_xq by simp

text \<open>
  The claim as stated includes \<^verbatim>\<open>Chain.jacobian\<close>: for a chain of one prismatic joint
  along the first axis and one configuration, the quaternion layout returns the twist of
  the joint.
\<close>

theorem xq_layout_counterexample:
  "Chain_jacobian \<lparr>segments = [prismatic ''j1'' (1, 0, 0)]\<rparr> (QMat [[2]]) 0 FkLayout_xq NoBase
     = Inr [[[1, 0, 0, 0, 0, 0]]]"
  by (simp add: Chain_jacobian_def nb_segm_def prismatic_def actuated_def
      Frame_init_def Frame_mul_def matvecmul_def matmatmul_def tf_add_def Twist_rmul_def
      rot_def vel_def transport_def stack_batch_def eye3_def zeros3_def)

section \<open>The centre of mass\<close>










section \<open>Properties of forward kinematics\<close>

lemmas eval_simps = fixed_segment_def prismatic_def actuated_def Frame_init_def Frame_mul_def
  matvecmul_def matmatmul_def tf_add_def eye3_def zeros3_def nb_segm_def nb_joint_def

lemma joint_index_0 [simp]: "joint_index segs 0 = 0"
  by (simp add: joint_index_def)

lemma joint_index_Suc [simp]:
  "joint_index (seg # segs) (Suc i) = (if actuated seg then Suc (joint_index segs i) else joint_index segs i)"
  by (simp add: joint_index_def)











lemma link_frames_False [simp]: "link_frames False seg F = Inr []"
  by (simp add: link_frames_def split: option.splits)









lemma xs_fixed_then_prismatic:
  "Chain_xs fixed_then_prismatic (QVec [5]) FkLayout_f NoBase False
     = Inr (Frames [\<lparr>p = Single (0, 0, 0), m = Single ((1, 0, 0), (0, 1, 0), (0, 0, 1))\<rparr>,
                    \<lparr>p = Single (1, 0, 0), m = Single ((1, 0, 0), (0, 1, 0), (0, 0, 1))\<rparr>,
                    \<lparr>p = Single (6, 0, 0), m = Single ((1, 0, 0), (0, 1, 0), (0, 0, 1))\<rparr>], None)"
  by (simp add: Chain_xs_def fixed_then_prismatic_def return_frame_list_def eval_simps)



text \<open>
  Claim C6 at a chain that starts with a fixed segment. \<^verbatim>\<open>Chain.ee_frame\<close> composes the
  first segment from \<^verbatim>\<open>q[0]\<close> whatever its joint type and starts the loop at \<^verbatim>\<open>j = 1\<close>.
  For the fixed segment followed by one prismatic joint and the joint vector \<^verbatim>\<open>[5]\<close>, of
  as many components as the chain has actuated joints, it reads \<^verbatim>\<open>q[1]\<close> for the joint
  and raises; given a second component it places the end of the chain by that one.
  \<^verbatim>\<open>Chain.xs\<close> on the same input consumes \<^verbatim>\<open>q[0]\<close> at the joint. For any chain and the
  empty joint vector \<^verbatim>\<open>ee_frame\<close> raises, also when no segment is actuated.
\<close>

theorem ee_frame_first_segment:
  "nb_joint fixed_then_prismatic = 1
   \<and> ee_frame fixed_then_prismatic (QVec [5]) 0 FkLayout_f = Inl IndexError
   \<and> ee_frame fixed_then_prismatic (QVec [5, 7]) 0 FkLayout_f
       = Inr (AFrame \<lparr>p = Single (8, 0, 0), m = Single ((1, 0, 0), (0, 1, 0), (0, 0, 1))\<rparr>)
   \<and> Chain_xs fixed_then_prismatic (QVec [5]) FkLayout_f NoBase False
       = Inr (Frames [\<lparr>p = Single (0, 0, 0), m = Single ((1, 0, 0), (0, 1, 0), (0, 0, 1))\<rparr>,
                      \<lparr>p = Single (1, 0, 0), m = Single ((1, 0, 0), (0, 1, 0), (0, 0, 1))\<rparr>,
                      \<lparr>p = Single (6, 0, 0), m = Single ((1, 0, 0), (0, 1, 0), (0, 0, 1))\<rparr>], None)
   \<and> ee_frame c (QVec []) n layout = Inl IndexError"
  by (simp add: xs_fixed_then_prismatic)
     (simp add: ee_frame_def ee_first_def fixed_then_prismatic_def return_frame_def eval_simps
        split: list.splits)

section \<open>The propagation of the twists\<close>














lemma tf_sub_cases:
  "tf_sub (Single a) (Single b) = Inr (Single (vsub a b))"
  "tf_sub (Batch as) (Single b) = Inr (Batch (map (\<lambda>a. vsub a b) as))"
  "tf_sub (Single a) (Batch bs) = Inr (Batch (map (vsub a) bs))"
  "length as = length bs \<Longrightarrow> tf_sub (Batch as) (Batch bs) = Inr (Batch (map2 vsub as bs))"
  by (simp_all add: tf_sub_def)

lemma Frame_mul_single:
  "Frame_mul \<lparr>p = Single a, m = Single R\<rparr> \<lparr>p = Single b, m = Single S\<rparr>
     = Inr \<lparr>p = Single (vadd (matvec R b) a), m = Single (matmat R S)\<rparr>"
  by (simp add: Frame_mul_def matvecmul_def matmatmul_def tf_add_def)

lemma Frame_mul_batch:
  "length as = length Rs \<Longrightarrow> length bs = length Rs \<Longrightarrow> length Ss = length Rs \<Longrightarrow>
   Frame_mul \<lparr>p = Batch as, m = Batch Rs\<rparr> \<lparr>p = Batch bs, m = Batch Ss\<rparr>
     = Inr \<lparr>p = Batch (map2 vadd (map2 matvec Rs bs) as), m = Batch (map2 matmat Rs Ss)\<rparr>"
  by (simp add: Frame_mul_def matvecmul_def matmatmul_def tf_add_def)

lemma matvec_entries:
  "matvec ((a11, a12, a13), (a21, a22, a23), (a31, a32, a33)) (v1, v2, v3)
     = (a11 * v1 + a12 * v2 + a13 * v3, a21 * v1 + a22 * v2 + a23 * v3,
        a31 * v1 + a32 * v2 + a33 * v3)"
  by simp







section \<open>Properties of ChainDict\<close>





















section \<open>The zero-filled Jacobians of ChainDict\<close>













end
